theory Spec2Isabelle
  imports Complex_Main
begin

section \<open>JavaScript strings and numbers\<close>

text \<open>
  A JavaScript string is a sequence of UTF-16 code units; a code unit is modelled as a
  natural number, so \<open>length\<close> is the source's \<open>.length\<close>.  \<open>js\<close> embeds an ASCII
  literal.  A Number is NaN, an infinity, or a finite value.  Finite values are kept
  exact, as rationals: rounding to binary64 is not modelled.  Rounding is monotone and
  the thresholds of the validators are themselves Number literals, so a comparison in
  the model can differ from the source only for an input that is not equal to a
  threshold but rounds to the same double.  A product of integers agrees with the
  source while it stays below \<open>2 ^ 53\<close>; a product with a factor that is no binary64
  value (for example 1.1 times 1000000) is exact here and rounded in the source, and a
  value beyond the binary64 range is finite here and an infinity in the source.  None
  of the concrete inputs used below is such a case.
\<close>

type_synonym jsstring = "nat list"

definition js :: "string \<Rightarrow> jsstring" where
  "js s = map of_char s"

datatype number = NaN | PosInf | NegInf | Num rat

text \<open>WhiteSpace and LineTerminator code points of ECMAScript: what \<open>trim\<close>,
  \<open>parseInt\<close>, \<open>parseFloat\<close> strip and what \<open>\s\<close> matches.\<close>

definition isWhiteSpace :: "nat \<Rightarrow> bool" where
  "isWhiteSpace c \<longleftrightarrow>
     c = 9 \<or> c = 10 \<or> c = 11 \<or> c = 12 \<or> c = 13 \<or> c = 32 \<or> c = 160 \<or> c = 5760 \<or>
     (8192 \<le> c \<and> c \<le> 8202) \<or> c = 8232 \<or> c = 8233 \<or> c = 8239 \<or> c = 8287 \<or>
     c = 12288 \<or> c = 65279"

definition trimStart :: "jsstring \<Rightarrow> jsstring" where
  "trimStart s = dropWhile isWhiteSpace s"

definition trimEnd :: "jsstring \<Rightarrow> jsstring" where
  "trimEnd s = rev (dropWhile isWhiteSpace (rev s))"

definition trim :: "jsstring \<Rightarrow> jsstring" where
  "trim s = trimEnd (trimStart s)"

definition startsWith :: "jsstring \<Rightarrow> jsstring \<Rightarrow> bool" where
  "startsWith s p \<longleftrightarrow> take (length p) s = p"

definition isDigit :: "nat \<Rightarrow> bool" where
  "isDigit c \<longleftrightarrow> 48 \<le> c \<and> c \<le> 57"

definition isUpper :: "nat \<Rightarrow> bool" where
  "isUpper c \<longleftrightarrow> 65 \<le> c \<and> c \<le> 90"

definition isLower :: "nat \<Rightarrow> bool" where
  "isLower c \<longleftrightarrow> 97 \<le> c \<and> c \<le> 122"

text \<open>The value of a code unit as a digit of some radix up to 36.\<close>

definition radixDigit :: "nat \<Rightarrow> nat option" where
  "radixDigit c =
     (if isDigit c then Some (c - 48)
      else if isLower c then Some (c - 87)
      else if isUpper c then Some (c - 55)
      else None)"

definition isRadixDigit :: "nat \<Rightarrow> nat \<Rightarrow> bool" where
  "isRadixDigit R c = (case radixDigit c of None \<Rightarrow> False | Some d \<Rightarrow> d < R)"

definition digitsValue :: "nat \<Rightarrow> jsstring \<Rightarrow> nat" where
  "digitsValue R Z = foldl (\<lambda>a c. R * a + (case radixDigit c of None \<Rightarrow> 0 | Some d \<Rightarrow> d)) 0 Z"

text \<open>
  \<open>parseInt(string, radix)\<close>: leading white space is skipped, one sign is read, with
  no radix (or radix 0) a \<open>0x\<close>/\<open>0X\<close> prefix selects radix 16, and the longest prefix
  of digits is converted; no digit at all gives NaN.  \<open>None\<close> is the omitted radix.
\<close>

definition parseInt :: "jsstring \<Rightarrow> nat option \<Rightarrow> number" where
  "parseInt string radix =
     (let S = trimStart string;
          neg = (S \<noteq> [] \<and> hd S = 45);
          S1 = (if S \<noteq> [] \<and> (hd S = 43 \<or> hd S = 45) then tl S else S);
          R0 = (case radix of None \<Rightarrow> 0 | Some r \<Rightarrow> r)
      in if R0 \<noteq> 0 \<and> (R0 < 2 \<or> 36 < R0) then NaN
         else
           let stripPrefix = (R0 = 0 \<or> R0 = 16);
               hex = (stripPrefix \<and> (startsWith S1 [48, 120] \<or> startsWith S1 [48, 88]));
               R = (if hex then 16 else if R0 = 0 then 10 else R0);
               S2 = (if hex then drop 2 S1 else S1);
               Z = takeWhile (isRadixDigit R) S2
           in if Z = [] then NaN
              else Num ((if neg then - 1 else 1) * of_nat (digitsValue R Z)))"

text \<open>
  \<open>parseFloat(string)\<close>: leading white space is skipped and the longest prefix that is
  a decimal literal (sign, \<open>Infinity\<close>, digits with an optional fraction and an
  optional exponent) is converted; no such prefix gives NaN.
\<close>

definition parseFloat :: "jsstring \<Rightarrow> number" where
  "parseFloat string =
     (let S = trimStart string;
          neg = (S \<noteq> [] \<and> hd S = 45);
          S1 = (if S \<noteq> [] \<and> (hd S = 43 \<or> hd S = 45) then tl S else S)
      in if startsWith S1 (js ''Infinity'') then (if neg then NegInf else PosInf)
         else
           let ip = takeWhile isDigit S1;
               r1 = dropWhile isDigit S1;
               dot = (r1 \<noteq> [] \<and> hd r1 = 46);
               fp = (if dot then takeWhile isDigit (tl r1) else []);
               r2 = (if dot then dropWhile isDigit (tl r1) else r1)
           in if ip = [] \<and> fp = [] then NaN
              else
                let r3 = (if r2 \<noteq> [] \<and> (hd r2 = 101 \<or> hd r2 = 69) then tl r2 else []);
                    eneg = (r3 \<noteq> [] \<and> hd r3 = 45);
                    r4 = (if r3 \<noteq> [] \<and> (hd r3 = 43 \<or> hd r3 = 45) then tl r3 else r3);
                    ep = takeWhile isDigit r4;
                    m = (of_nat (digitsValue 10 (ip @ fp)) :: rat) / 10 ^ length fp;
                    v = (if eneg then m / 10 ^ digitsValue 10 ep else m * 10 ^ digitsValue 10 ep)
                in Num (if neg then - v else v))"

definition isNaN :: "number \<Rightarrow> bool" where
  "isNaN x \<longleftrightarrow> x = NaN"

text \<open>The relational operators \<open><\<close>, \<open><=\<close>, \<open>>\<close> on Numbers: false when either side is NaN.\<close>

fun num_lt :: "number \<Rightarrow> number \<Rightarrow> bool" where
  "num_lt NaN _ = False"
| "num_lt _ NaN = False"
| "num_lt PosInf _ = False"
| "num_lt _ NegInf = False"
| "num_lt NegInf _ = True"
| "num_lt _ PosInf = True"
| "num_lt (Num a) (Num b) = (a < b)"

fun num_le :: "number \<Rightarrow> number \<Rightarrow> bool" where
  "num_le NaN _ = False"
| "num_le _ NaN = False"
| "num_le NegInf _ = True"
| "num_le _ PosInf = True"
| "num_le PosInf _ = False"
| "num_le _ NegInf = False"
| "num_le (Num a) (Num b) = (a \<le> b)"

definition num_gt :: "number \<Rightarrow> number \<Rightarrow> bool" where
  "num_gt x y = num_lt y x"

text \<open>The operator \<open>*\<close> on Numbers.\<close>

fun num_sign :: "number \<Rightarrow> int" where
  "num_sign NaN = 0"
| "num_sign PosInf = 1"
| "num_sign NegInf = - 1"
| "num_sign (Num a) = (if a < 0 then - 1 else if a = 0 then 0 else 1)"

fun num_mult :: "number \<Rightarrow> number \<Rightarrow> number" where
  "num_mult NaN _ = NaN"
| "num_mult _ NaN = NaN"
| "num_mult (Num a) (Num b) = Num (a * b)"
| "num_mult x y =
     (if num_sign x * num_sign y = 0 then NaN
      else if num_sign x * num_sign y < 0 then NegInf else PosInf)"

text \<open>
  \<open>Math.pow(10, y)\<close>.  The source only passes a result of \<open>parseInt\<close>, which is NaN or
  integral; a finite exponent that is not integral has no rational power and is not
  given a value here (NaN stands for it).
\<close>

fun Math_pow10 :: "number \<Rightarrow> number" where
  "Math_pow10 NaN = NaN"
| "Math_pow10 PosInf = PosInf"
| "Math_pow10 NegInf = Num 0"
| "Math_pow10 (Num y) =
     (if of_int \<lfloor>y\<rfloor> \<noteq> y then NaN
      else if 0 \<le> y then Num (10 ^ nat \<lfloor>y\<rfloor>) else Num (1 / 10 ^ nat (- \<lfloor>y\<rfloor>)))"

definition MAX_SAFE_INTEGER :: number where
  "MAX_SAFE_INTEGER = Num (2 ^ 53 - 1)"

text \<open>\<open>/^[cls]+$/.test(s)\<close> for a character class \<open>cls\<close>: one or more code units, all
  of the class, and nothing else (no flag is set, so \<open>$\<close> is the end of the input).\<close>

definition testClassPlus :: "(nat \<Rightarrow> bool) \<Rightarrow> jsstring \<Rightarrow> bool" where
  "testClassPlus cls s \<longleftrightarrow> s \<noteq> [] \<and> list_all cls s"

section \<open>External actions and asynchronous submission\<close>

text \<open>
  The contract functions of \<open>@/lib/contracts\<close> are opaque: a handler's call is recorded
  with its arguments.  A handler is \<open>async\<close>: it runs synchronously up to its
  \<open>await\<close>, where the call has been issued, and is resumed when the promise settles.
  The synchronous part returns the state and the call issued, if any; the resumption
  takes the settlement and the state at that moment.
\<close>

datatype contract_call =
    CreateToken jsstring jsstring number number
  | MintNFT jsstring
  | ListNFT number number
  | BuyNFT number
  | StakeSTX number
  | RequestUnstake number
  | RegisterService jsstring number
  | PayForService number

datatype settlement = Resolved | Rejected

text \<open>How a block ends: normally, or with an exception that propagates.\<close>

datatype 's completion = Normal 's | Thrown 's

fun state_of :: "'s completion \<Rightarrow> 's" where
  "state_of (Normal s) = s"
| "state_of (Thrown s) = s"

text \<open>\<open>await p; rest\<close>: \<open>rest\<close> runs when \<open>p\<close> resolves, a rejection is thrown.\<close>

definition await :: "settlement \<Rightarrow> ('s \<Rightarrow> 's completion) \<Rightarrow> 's \<Rightarrow> 's completion" where
  "await r rest s = (case r of Resolved \<Rightarrow> rest s | Rejected \<Rightarrow> Thrown s)"

text \<open>\<open>try { body } finally { fin }\<close>: \<open>fin\<close> runs however \<open>body\<close> ends.\<close>

definition try_finally ::
  "('s \<Rightarrow> 's completion) \<Rightarrow> ('s \<Rightarrow> 's) \<Rightarrow> 's \<Rightarrow> 's completion" where
  "try_finally body fin s =
     (case body s of Normal s' \<Rightarrow> Normal (fin s') | Thrown s' \<Rightarrow> Thrown (fin s'))"

text \<open>A trigger (button, or the form it submits): a disabled trigger does not run
  its handler.\<close>

definition click ::
  "('s \<Rightarrow> bool) \<Rightarrow> ('s \<Rightarrow> 's \<times> contract_call option) \<Rightarrow> 's \<Rightarrow> 's \<times> contract_call option" where
  "click disabled handler st = (if disabled st then (st, None) else handler st)"

section \<open>Token launchpad page\<close>

record launchpad =
  name :: jsstring
  nameError :: string
  symbol :: jsstring
  symbolError :: string
  decimals :: jsstring
  decimalsError :: string
  "supply" :: jsstring
  supplyError :: string
  isLoading :: bool

definition launchpad_init :: launchpad where
  "launchpad_init =
     \<lparr>name = [], nameError = '''', symbol = [], symbolError = '''', decimals = js ''6'',
      decimalsError = '''', supply = [], supplyError = '''', isLoading = False\<rparr>"

definition validateName :: "jsstring \<Rightarrow> launchpad \<Rightarrow> launchpad \<times> bool" where
  "validateName v st =
     (if trim v = [] then (st\<lparr>nameError := ''Token name is required''\<rparr>, False)
      else if length v < 2 \<or> 32 < length v then
        (st\<lparr>nameError := ''Token name must be 2-32 characters''\<rparr>, False)
      else if \<not> testClassPlus (\<lambda>c. isLower c \<or> isUpper c \<or> isDigit c \<or> isWhiteSpace c) v then
        (st\<lparr>nameError := ''Token name must be alphanumeric''\<rparr>, False)
      else (st\<lparr>nameError := ''''\<rparr>, True))"

definition validateSymbol :: "jsstring \<Rightarrow> launchpad \<Rightarrow> launchpad \<times> bool" where
  "validateSymbol v st =
     (if trim v = [] then (st\<lparr>symbolError := ''Symbol is required''\<rparr>, False)
      else if length v < 2 \<or> 5 < length v then
        (st\<lparr>symbolError := ''Symbol must be 2-5 characters''\<rparr>, False)
      else if \<not> testClassPlus isUpper v then
        (st\<lparr>symbolError := ''Symbol must be uppercase letters only''\<rparr>, False)
      else (st\<lparr>symbolError := ''''\<rparr>, True))"

definition validateDecimals :: "jsstring \<Rightarrow> launchpad \<Rightarrow> launchpad \<times> bool" where
  "validateDecimals v st =
     (let num = parseInt v (Some 10)
      in if isNaN num \<or> num_lt num (Num 0) \<or> num_gt num (Num 18) then
           (st\<lparr>decimalsError := ''Decimals must be between 0 and 18''\<rparr>, False)
         else (st\<lparr>decimalsError := ''''\<rparr>, True))"

definition validateSupply :: "jsstring \<Rightarrow> launchpad \<Rightarrow> launchpad \<times> bool" where
  "validateSupply v st =
     (if trim v = [] then (st\<lparr>supplyError := ''Supply is required''\<rparr>, False)
      else
        let num = parseInt v (Some 10)
        in if isNaN num \<or> num_le num (Num 0) then
             (st\<lparr>supplyError := ''Supply must be a positive integer''\<rparr>, False)
           else if num_gt num MAX_SAFE_INTEGER then
             (st\<lparr>supplyError := ''Supply exceeds maximum safe value''\<rparr>, False)
           else (st\<lparr>supplyError := ''''\<rparr>, True))"

text \<open>\<open>handleCreate\<close> up to its \<open>await\<close>.  The validators are chained with \<open>||\<close>:
  the first one that fails ends the chain, the later ones do not run.  The arguments
  are read from the values the handler was rendered with.\<close>

definition handleCreate :: "launchpad \<Rightarrow> launchpad \<times> contract_call option" where
  "handleCreate st =
     (let (s1, ok1) = validateName (name st) st in
      if \<not> ok1 then (s1, None) else
      let (s2, ok2) = validateSymbol (symbol st) s1 in
      if \<not> ok2 then (s2, None) else
      let (s3, ok3) = validateDecimals (decimals st) s2 in
      if \<not> ok3 then (s3, None) else
      let (s4, ok4) = validateSupply (supply st) s3 in
      if \<not> ok4 then (s4, None) else
      let s5 = s4\<lparr>isLoading := True\<rparr>;
          totalSupply =
            num_mult (parseInt (supply st) None) (Math_pow10 (parseInt (decimals st) None))
      in (s5, Some (CreateToken (name st) (symbol st) (parseInt (decimals st) None) totalSupply)))"

text \<open>\<open>handleCreate\<close> from the settlement of \<open>createToken\<close> on: the rest of the
  \<open>try\<close> block and the \<open>finally\<close> block.\<close>

definition handleCreate_settled :: "settlement \<Rightarrow> launchpad \<Rightarrow> launchpad completion" where
  "handleCreate_settled r =
     try_finally
       (await r (\<lambda>s. Normal (s\<lparr>name := [], symbol := [], decimals := js ''6'', supply := []\<rparr>)))
       (\<lambda>s. s\<lparr>isLoading := False\<rparr>)"

text \<open>The submit button's \<open>disabled\<close> attribute.\<close>

definition create_disabled :: "launchpad \<Rightarrow> bool" where
  "create_disabled st \<longleftrightarrow>
     isLoading st \<or> nameError st \<noteq> '''' \<or> symbolError st \<noteq> '''' \<or> decimalsError st \<noteq> '''' \<or>
     supplyError st \<noteq> '''' \<or> name st = [] \<or> symbol st = [] \<or> supply st = []"













section \<open>NFT marketplace page\<close>

record marketplace =
  mintUri :: jsstring
  mintUriError :: string
  listTokenId :: jsstring
  listTokenIdError :: string
  listPrice :: jsstring
  listPriceError :: string
  buyTokenId :: jsstring
  buyTokenIdError :: string

definition marketplace_init :: marketplace where
  "marketplace_init =
     \<lparr>mintUri = [], mintUriError = '''', listTokenId = [], listTokenIdError = '''',
      listPrice = [], listPriceError = '''', buyTokenId = [], buyTokenIdError = ''''\<rparr>"

datatype token_field = ListField | BuyField

definition validateUri :: "jsstring \<Rightarrow> marketplace \<Rightarrow> marketplace \<times> bool" where
  "validateUri uri st =
     (if trim uri = [] then (st\<lparr>mintUriError := ''URI is required''\<rparr>, False)
      else if 256 < length uri then
        (st\<lparr>mintUriError := ''URI must be 256 characters or less''\<rparr>, False)
      else if \<not> startsWith uri (js ''ipfs://'') \<and> \<not> startsWith uri (js ''http://'') \<and>
              \<not> startsWith uri (js ''https://'') then
        (st\<lparr>mintUriError := ''URI must start with ipfs://, http://, or https://''\<rparr>, False)
      else (st\<lparr>mintUriError := ''''\<rparr>, True))"

definition setTokenIdError :: "token_field \<Rightarrow> string \<Rightarrow> marketplace \<Rightarrow> marketplace" where
  "setTokenIdError field msg st =
     (case field of ListField \<Rightarrow> st\<lparr>listTokenIdError := msg\<rparr>
                  | BuyField \<Rightarrow> st\<lparr>buyTokenIdError := msg\<rparr>)"

definition validateTokenId :: "jsstring \<Rightarrow> token_field \<Rightarrow> marketplace \<Rightarrow> marketplace \<times> bool" where
  "validateTokenId tid field st =
     (if trim tid = [] then (setTokenIdError field ''Token ID is required'' st, False)
      else
        let num = parseInt tid (Some 10)
        in if isNaN num \<or> num_lt num (Num 0) then
             (setTokenIdError field ''Token ID must be a non-negative integer'' st, False)
           else (setTokenIdError field '''' st, True))"

definition validatePrice :: "jsstring \<Rightarrow> marketplace \<Rightarrow> marketplace \<times> bool" where
  "validatePrice price st =
     (if trim price = [] then (st\<lparr>listPriceError := ''Price is required''\<rparr>, False)
      else
        let num = parseFloat price
        in if isNaN num \<or> num_le num (Num 0) then
             (st\<lparr>listPriceError := ''Price must be a positive number''\<rparr>, False)
           else if num_lt num (Num (1 / 1000)) then
             (st\<lparr>listPriceError := ''Minimum price is 0.001 STX''\<rparr>, False)
           else (st\<lparr>listPriceError := ''''\<rparr>, True))"

definition handleMint :: "marketplace \<Rightarrow> marketplace \<times> contract_call option" where
  "handleMint st =
     (let (s1, ok1) = validateUri (mintUri st) st in
      if \<not> ok1 then (s1, None) else (s1, Some (MintNFT (mintUri st))))"

definition handleMint_settled :: "settlement \<Rightarrow> marketplace \<Rightarrow> marketplace completion" where
  "handleMint_settled r = await r (\<lambda>s. Normal (s\<lparr>mintUri := []\<rparr>))"

definition handleList :: "marketplace \<Rightarrow> marketplace \<times> contract_call option" where
  "handleList st =
     (let (s1, ok1) = validateTokenId (listTokenId st) ListField st in
      if \<not> ok1 then (s1, None) else
      let (s2, ok2) = validatePrice (listPrice st) s1 in
      if \<not> ok2 then (s2, None) else
      (s2, Some (ListNFT (parseInt (listTokenId st) None)
                    (num_mult (parseInt (listPrice st) None) (Num 1000000)))))"

definition handleList_settled :: "settlement \<Rightarrow> marketplace \<Rightarrow> marketplace completion" where
  "handleList_settled r = await r (\<lambda>s. Normal (s\<lparr>listTokenId := [], listPrice := []\<rparr>))"

definition handleBuy :: "marketplace \<Rightarrow> marketplace \<times> contract_call option" where
  "handleBuy st =
     (let (s1, ok1) = validateTokenId (buyTokenId st) BuyField st in
      if \<not> ok1 then (s1, None) else (s1, Some (BuyNFT (parseInt (buyTokenId st) None))))"

definition handleBuy_settled :: "settlement \<Rightarrow> marketplace \<Rightarrow> marketplace completion" where
  "handleBuy_settled r = await r (\<lambda>s. Normal (s\<lparr>buyTokenId := []\<rparr>))"

text \<open>The three submit buttons: only the mint button has a \<open>disabled\<close> attribute.\<close>

definition mint_disabled :: "marketplace \<Rightarrow> bool" where
  "mint_disabled st \<longleftrightarrow> mintUriError st \<noteq> '''' \<or> mintUri st = []"

definition list_disabled :: "marketplace \<Rightarrow> bool" where
  "list_disabled st \<longleftrightarrow> False"

definition buy_disabled :: "marketplace \<Rightarrow> bool" where
  "buy_disabled st \<longleftrightarrow> False"










section \<open>Staking vault page\<close>

record staking =
  stakeAmount :: jsstring
  stakeAmountError :: string
  unstakeAmount :: jsstring
  unstakeAmountError :: string
  isStaking :: bool
  isUnstaking :: bool

definition staking_init :: staking where
  "staking_init =
     \<lparr>stakeAmount = [], stakeAmountError = '''', unstakeAmount = [], unstakeAmountError = '''',
      isStaking = False, isUnstaking = False\<rparr>"

definition validateStakeAmount :: "jsstring \<Rightarrow> staking \<Rightarrow> staking \<times> bool" where
  "validateStakeAmount amount st =
     (if trim amount = [] then (st\<lparr>stakeAmountError := ''Amount is required''\<rparr>, False)
      else
        let num = parseFloat amount
        in if isNaN num \<or> num_le num (Num 0) then
             (st\<lparr>stakeAmountError := ''Amount must be a positive number''\<rparr>, False)
           else if num_lt num (Num 1) then
             (st\<lparr>stakeAmountError := ''Minimum stake is 1 STX''\<rparr>, False)
           else (st\<lparr>stakeAmountError := ''''\<rparr>, True))"

definition validateUnstakeAmount :: "jsstring \<Rightarrow> staking \<Rightarrow> staking \<times> bool" where
  "validateUnstakeAmount amount st =
     (if trim amount = [] then (st\<lparr>unstakeAmountError := ''Amount is required''\<rparr>, False)
      else
        let num = parseFloat amount
        in if isNaN num \<or> num_le num (Num 0) then
             (st\<lparr>unstakeAmountError := ''Amount must be a positive number''\<rparr>, False)
           else if num_lt num (Num 1) then
             (st\<lparr>unstakeAmountError := ''Minimum unstake is 1 STX''\<rparr>, False)
           else (st\<lparr>unstakeAmountError := ''''\<rparr>, True))"

definition handleStake :: "staking \<Rightarrow> staking \<times> contract_call option" where
  "handleStake st =
     (let (s1, ok1) = validateStakeAmount (stakeAmount st) st in
      if \<not> ok1 then (s1, None) else
      let s2 = s1\<lparr>isStaking := True\<rparr>;
          amount = num_mult (parseFloat (stakeAmount st)) (Num 1000000)
      in (s2, Some (StakeSTX amount)))"

definition handleStake_settled :: "settlement \<Rightarrow> staking \<Rightarrow> staking completion" where
  "handleStake_settled r =
     try_finally (await r (\<lambda>s. Normal (s\<lparr>stakeAmount := []\<rparr>))) (\<lambda>s. s\<lparr>isStaking := False\<rparr>)"

definition handleUnstake :: "staking \<Rightarrow> staking \<times> contract_call option" where
  "handleUnstake st =
     (let (s1, ok1) = validateUnstakeAmount (unstakeAmount st) st in
      if \<not> ok1 then (s1, None) else
      let s2 = s1\<lparr>isUnstaking := True\<rparr>;
          amount = num_mult (parseFloat (unstakeAmount st)) (Num 1000000)
      in (s2, Some (RequestUnstake amount)))"

definition handleUnstake_settled :: "settlement \<Rightarrow> staking \<Rightarrow> staking completion" where
  "handleUnstake_settled r =
     try_finally (await r (\<lambda>s. Normal (s\<lparr>unstakeAmount := []\<rparr>)))
       (\<lambda>s. s\<lparr>isUnstaking := False\<rparr>)"

definition stake_disabled :: "staking \<Rightarrow> bool" where
  "stake_disabled st \<longleftrightarrow> isStaking st \<or> stakeAmountError st \<noteq> '''' \<or> stakeAmount st = []"

definition unstake_disabled :: "staking \<Rightarrow> bool" where
  "unstake_disabled st \<longleftrightarrow>
     isUnstaking st \<or> unstakeAmountError st \<noteq> '''' \<or> unstakeAmount st = []"







section \<open>Service registry page\<close>

record services =
  title :: jsstring
  titleError :: string
  price :: jsstring
  priceError :: string
  serviceId :: jsstring
  serviceIdError :: string
  isRegistering :: bool
  isPaying :: bool

definition services_init :: services where
  "services_init =
     \<lparr>title = [], titleError = '''', price = [], priceError = '''', serviceId = [],
      serviceIdError = '''', isRegistering = False, isPaying = False\<rparr>"

definition validateTitle :: "jsstring \<Rightarrow> services \<Rightarrow> services \<times> bool" where
  "validateTitle v st =
     (if trim v = [] then (st\<lparr>titleError := ''Service title is required''\<rparr>, False)
      else if length v < 3 \<or> 64 < length v then
        (st\<lparr>titleError := ''Title must be 3-64 characters''\<rparr>, False)
      else (st\<lparr>titleError := ''''\<rparr>, True))"

text \<open>The service registry's own \<open>validatePrice\<close> (the marketplace has another).\<close>

definition validatePrice_services :: "jsstring \<Rightarrow> services \<Rightarrow> services \<times> bool" where
  "validatePrice_services v st =
     (if trim v = [] then (st\<lparr>priceError := ''Price is required''\<rparr>, False)
      else
        let num = parseFloat v
        in if isNaN num \<or> num_le num (Num 0) then
             (st\<lparr>priceError := ''Price must be a positive number''\<rparr>, False)
           else if num_lt num (Num (1 / 10)) then
             (st\<lparr>priceError := ''Minimum price is 0.1 STX''\<rparr>, False)
           else (st\<lparr>priceError := ''''\<rparr>, True))"

definition validateServiceId :: "jsstring \<Rightarrow> services \<Rightarrow> services \<times> bool" where
  "validateServiceId v st =
     (if trim v = [] then (st\<lparr>serviceIdError := ''Service ID is required''\<rparr>, False)
      else
        let num = parseInt v (Some 10)
        in if isNaN num \<or> num_lt num (Num 0) then
             (st\<lparr>serviceIdError := ''Service ID must be a non-negative integer''\<rparr>, False)
           else (st\<lparr>serviceIdError := ''''\<rparr>, True))"

definition handleRegister :: "services \<Rightarrow> services \<times> contract_call option" where
  "handleRegister st =
     (let (s1, ok1) = validateTitle (title st) st in
      if \<not> ok1 then (s1, None) else
      let (s2, ok2) = validatePrice_services (price st) s1 in
      if \<not> ok2 then (s2, None) else
      let s3 = s2\<lparr>isRegistering := True\<rparr>;
          priceInMicrostacks = num_mult (parseFloat (price st)) (Num 1000000)
      in (s3, Some (RegisterService (title st) priceInMicrostacks)))"

definition handleRegister_settled :: "settlement \<Rightarrow> services \<Rightarrow> services completion" where
  "handleRegister_settled r =
     try_finally (await r (\<lambda>s. Normal (s\<lparr>title := [], price := []\<rparr>)))
       (\<lambda>s. s\<lparr>isRegistering := False\<rparr>)"

definition handlePay :: "services \<Rightarrow> services \<times> contract_call option" where
  "handlePay st =
     (let (s1, ok1) = validateServiceId (serviceId st) st in
      if \<not> ok1 then (s1, None) else
      let s2 = s1\<lparr>isPaying := True\<rparr>
      in (s2, Some (PayForService (parseInt (serviceId st) None))))"

definition handlePay_settled :: "settlement \<Rightarrow> services \<Rightarrow> services completion" where
  "handlePay_settled r =
     try_finally (await r (\<lambda>s. Normal (s\<lparr>serviceId := []\<rparr>))) (\<lambda>s. s\<lparr>isPaying := False\<rparr>)"

definition register_disabled :: "services \<Rightarrow> bool" where
  "register_disabled st \<longleftrightarrow>
     isRegistering st \<or> titleError st \<noteq> '''' \<or> priceError st \<noteq> '''' \<or> title st = [] \<or>
     price st = []"

definition pay_disabled :: "services \<Rightarrow> bool" where
  "pay_disabled st \<longleftrightarrow> isPaying st \<or> serviceIdError st \<noteq> '''' \<or> serviceId st = []"










section \<open>The hook \<open>useFormValidation\<close>\<close>

text \<open>
  The hook keeps three pieces of state: the values, the errors (an object that has a
  key only for a field in error; the message of a validator's result is optional) and
  the touched flags.  \<open>validators\<close> is an object: its entries in \<open>Object.keys\<close> order,
  with distinct keys.  A field that is no key of \<open>validators\<close> has no validator
  (properties inherited through the prototype chain are not modelled).  Each operation
  is applied to the state of the render it was created in.
\<close>

record validation =
  valid :: bool
  error :: "string option"

record ('f, 'v) form =
  "values" :: "'f \<Rightarrow> 'v"
  errors :: "'f \<rightharpoonup> string option"
  touched :: "'f \<rightharpoonup> bool"

type_synonym ('f, 'v) validators = "('f \<times> ('v \<Rightarrow> validation)) list"

definition useFormValidation :: "('f \<Rightarrow> 'v) \<Rightarrow> ('f, 'v) form" where
  "useFormValidation initialState =
     \<lparr>values = initialState, errors = Map.empty, touched = Map.empty\<rparr>"


text \<open>The body of the \<open>forEach\<close> of \<open>validateAll\<close>, on \<open>(newErrors, isValid)\<close>.\<close>

definition validateAll_step ::
  "('f \<Rightarrow> 'v) \<Rightarrow> ('f \<rightharpoonup> string option) \<times> bool \<Rightarrow> 'f \<times> ('v \<Rightarrow> validation) \<Rightarrow>
     ('f \<rightharpoonup> string option) \<times> bool" where
  "validateAll_step vals acc entry =
     (let result = snd entry (vals (fst entry))
      in if \<not> valid result then ((fst acc)(fst entry \<mapsto> error result), False) else acc)"

definition validateAll :: "('f, 'v) validators \<Rightarrow> ('f, 'v) form \<Rightarrow> ('f, 'v) form \<times> bool" where
  "validateAll vds st =
     (let (newErrors, isValid) = foldl (validateAll_step (values st)) (Map.empty, True) vds
      in (st\<lparr>errors := newErrors\<rparr>, isValid))"

definition setValue :: "'f \<Rightarrow> 'v \<Rightarrow> ('f, 'v) form \<Rightarrow> ('f, 'v) form" where
  "setValue field v st = st\<lparr>values := (values st)(field := v)\<rparr>"


definition reset :: "('f \<Rightarrow> 'v) \<Rightarrow> ('f, 'v) form \<Rightarrow> ('f, 'v) form" where
  "reset initialState st = st\<lparr>values := initialState, errors := Map.empty, touched := Map.empty\<rparr>"

section \<open>Scenario states\<close>

text \<open>The token-creation form filled in with the values of the end-to-end scenario.\<close>

definition token_scenario :: launchpad where
  "token_scenario =
     launchpad_init\<lparr>name := js ''My Token'', symbol := js ''MTK'', decimals := js ''6'',
       supply := js ''1000000''\<rparr>"

text \<open>The listing form with token ID "1" and price "2", and with price "1.5".\<close>

definition whole_price_listing :: marketplace where
  "whole_price_listing = marketplace_init\<lparr>listTokenId := js ''1'', listPrice := js ''2''\<rparr>"

definition fractional_price_listing :: marketplace where
  "fractional_price_listing =
     marketplace_init\<lparr>listTokenId := js ''1'', listPrice := js ''1.5''\<rparr>"

text \<open>The listing form of the end-to-end scenario: token ID "-1", price "0.0005".\<close>

definition listing_scenario :: marketplace where
  "listing_scenario =
     marketplace_init\<lparr>listTokenId := js ''-1'', listPrice := js ''0.0005''\<rparr>"


text \<open>A one-field instance of the hook, with the validation pattern of the pages.\<close>

definition required_field :: "jsstring \<Rightarrow> validation" where
  "required_field v =
     (if trim v = [] then \<lparr>valid = False, error = Some ''Field is required''\<rparr>
      else \<lparr>valid = True, error = None\<rparr>)"



text \<open>Forms that are filled in, with one value that its validator rejects: a supply
  of "0"; a URI with another scheme; a price below the minimum; a negative token ID;
  the staking scenario's amount "0.5"; a service price below the minimum and a
  negative service ID.\<close>

definition zero_supply_token :: launchpad where
  "zero_supply_token = token_scenario\<lparr>supply := js ''0''\<rparr>"

definition ftp_mint :: marketplace where
  "ftp_mint = marketplace_init\<lparr>mintUri := js ''ftp://x''\<rparr>"

definition cheap_listing :: marketplace where
  "cheap_listing = marketplace_init\<lparr>listTokenId := js ''1'', listPrice := js ''0.0005''\<rparr>"

definition negative_buy :: marketplace where
  "negative_buy = marketplace_init\<lparr>buyTokenId := js ''-1''\<rparr>"

definition positive_buy :: marketplace where
  "positive_buy = marketplace_init\<lparr>buyTokenId := js ''7''\<rparr>"

definition half_stake :: staking where
  "half_stake = staking_init\<lparr>stakeAmount := js ''0.5'', unstakeAmount := js ''0.5''\<rparr>"

definition cheap_service :: services where
  "cheap_service =
     services_init\<lparr>title := js ''Web Development'', price := js ''0.05'',
       serviceId := js ''-3''\<rparr>"


text \<open>A two-field instance of the hook whose second field is left empty.\<close>

definition two_field_validators :: "(string, jsstring) validators" where
  "two_field_validators = [(''title'', required_field), (''price'', required_field)]"

definition two_field_form :: "(string, jsstring) form" where
  "two_field_form =
     setValue ''title'' (js ''Web Development'') (useFormValidation (\<lambda>_. []))"



definition long_padded_name :: jsstring where
  "long_padded_name = js ''abcdefghijklmnopqrstuvwxyzABCDEF ''"

section \<open>Properties\<close>

lemmas js_eval =
  js_def trimStart_def trimEnd_def trim_def isWhiteSpace_def startsWith_def isDigit_def
  isUpper_def isLower_def radixDigit_def isRadixDigit_def digitsValue_def parseInt_def
  parseFloat_def isNaN_def num_gt_def MAX_SAFE_INTEGER_def testClassPlus_def Let_def

lemmas settle_eval = await_def try_finally_def

lemmas page_eval =
  click_def launchpad_init_def marketplace_init_def staking_init_def services_init_def
  validateName_def validateSymbol_def validateDecimals_def validateSupply_def
  validateUri_def validateTokenId_def setTokenIdError_def validatePrice_def
  validateStakeAmount_def validateUnstakeAmount_def validateTitle_def
  validatePrice_services_def validateServiceId_def
  handleCreate_def handleMint_def handleList_def handleBuy_def handleStake_def
  handleUnstake_def handleRegister_def handlePay_def
  create_disabled_def mint_disabled_def list_disabled_def buy_disabled_def
  stake_disabled_def unstake_disabled_def register_disabled_def pay_disabled_def

subsection \<open>Blank input, and the error map of the hook\<close>

lemma trimStart_blank: "trim v = [] \<Longrightarrow> trimStart v = []"
proof (rule ccontr)
  assume t: "trim v = []" and ne: "trimStart v \<noteq> []"
  from t have "\<forall>c\<in>set (trimStart v). isWhiteSpace c"
    by (simp add: trim_def trimEnd_def dropWhile_eq_Nil_conv)
  with ne have "isWhiteSpace (hd (trimStart v))" by simp
  moreover from ne have "\<not> isWhiteSpace (hd (trimStart v))"
    unfolding trimStart_def by (rule hd_dropWhile)
  ultimately show False by simp
qed

lemma parseInt_blank: "trim v = [] \<Longrightarrow> parseInt v radix = NaN"
  by (simp add: parseInt_def trimStart_blank startsWith_def Let_def)

lemma parseFloat_blank: "trim v = [] \<Longrightarrow> parseFloat v = NaN"
  by (simp add: parseFloat_def trimStart_blank startsWith_def js_def Let_def)

lemma validateAll_fold_valid:
  "snd (foldl (validateAll_step vals) acc vds) \<longleftrightarrow>
     snd acc \<and> (\<forall>e\<in>set vds. valid (snd e (vals (fst e))))"
  by (induction vds arbitrary: acc) (auto simp add: validateAll_step_def Let_def)

lemma validateAll_valid:
  "snd (validateAll vds st) \<longleftrightarrow> (\<forall>e\<in>set vds. valid (snd e (values st (fst e))))"
  by (simp add: validateAll_def split_def validateAll_fold_valid)




subsection \<open>The shape of a validator's result\<close>

lemma trim_Nil: "trim [] = []"
  by (simp add: trim_def trimEnd_def trimStart_def)

lemma validateName_shape: "\<exists>msg. \<forall>s. validateName v s = (s\<lparr>nameError := msg\<rparr>, msg = [])"
  by (rule exI [where x = "nameError (fst (validateName v launchpad_init))"]) (simp add: validateName_def)
lemma validateSymbol_shape: "\<exists>msg. \<forall>s. validateSymbol v s = (s\<lparr>symbolError := msg\<rparr>, msg = [])"
  by (rule exI [where x = "symbolError (fst (validateSymbol v launchpad_init))"]) (simp add: validateSymbol_def)
lemma validateDecimals_shape:
  "\<exists>msg. \<forall>s. validateDecimals v s = (s\<lparr>decimalsError := msg\<rparr>, msg = [])"
  by (rule exI [where x = "decimalsError (fst (validateDecimals v launchpad_init))"]) (simp add: validateDecimals_def Let_def)
lemma validateSupply_shape: "\<exists>msg. \<forall>s. validateSupply v s = (s\<lparr>supplyError := msg\<rparr>, msg = [])"
  by (rule exI [where x = "supplyError (fst (validateSupply v launchpad_init))"]) (simp add: validateSupply_def Let_def)
lemma validateUri_shape: "\<exists>msg. \<forall>s. validateUri v s = (s\<lparr>mintUriError := msg\<rparr>, msg = [])"
  by (rule exI [where x = "mintUriError (fst (validateUri v marketplace_init))"]) (simp add: validateUri_def)
lemma validateTokenId_shape:
  "\<exists>msg. \<forall>s. validateTokenId v fld s = (setTokenIdError fld msg s, msg = [])"
  by (rule exI [where x = "listTokenIdError (fst (validateTokenId v ListField marketplace_init))"]) (simp add: validateTokenId_def setTokenIdError_def Let_def split: token_field.splits)
lemma validatePrice_shape: "\<exists>msg. \<forall>s. validatePrice v s = (s\<lparr>listPriceError := msg\<rparr>, msg = [])"
  by (rule exI [where x = "listPriceError (fst (validatePrice v marketplace_init))"]) (simp add: validatePrice_def Let_def)
lemma validateStakeAmount_shape:
  "\<exists>msg. \<forall>s. validateStakeAmount v s = (s\<lparr>stakeAmountError := msg\<rparr>, msg = [])"
  by (rule exI [where x = "stakeAmountError (fst (validateStakeAmount v staking_init))"]) (simp add: validateStakeAmount_def Let_def)
lemma validateUnstakeAmount_shape:
  "\<exists>msg. \<forall>s. validateUnstakeAmount v s = (s\<lparr>unstakeAmountError := msg\<rparr>, msg = [])"
  by (rule exI [where x = "unstakeAmountError (fst (validateUnstakeAmount v staking_init))"]) (simp add: validateUnstakeAmount_def Let_def)
lemma validateTitle_shape: "\<exists>msg. \<forall>s. validateTitle v s = (s\<lparr>titleError := msg\<rparr>, msg = [])"
  by (rule exI [where x = "titleError (fst (validateTitle v services_init))"]) (simp add: validateTitle_def)
lemma validatePrice_services_shape:
  "\<exists>msg. \<forall>s. validatePrice_services v s = (s\<lparr>priceError := msg\<rparr>, msg = [])"
  by (rule exI [where x = "priceError (fst (validatePrice_services v services_init))"]) (simp add: validatePrice_services_def Let_def)
lemma validateServiceId_shape:
  "\<exists>msg. \<forall>s. validateServiceId v s = (s\<lparr>serviceIdError := msg\<rparr>, msg = [])"
  by (rule exI [where x = "serviceIdError (fst (validateServiceId v services_init))"]) (simp add: validateServiceId_def Let_def)

lemma handleCreate_calls_iff:
  "snd (handleCreate a) = None \<longleftrightarrow>
     nameError (fst (validateName (name a) a)) \<noteq> '''' \<or>
     symbolError (fst (validateSymbol (symbol a) a)) \<noteq> '''' \<or>
     decimalsError (fst (validateDecimals (decimals a) a)) \<noteq> '''' \<or>
     supplyError (fst (validateSupply (supply a) a)) \<noteq> ''''"
proof -
  obtain n where n: "\<And>s. validateName (name a) s = (s\<lparr>nameError := n\<rparr>, n = [])"
    using validateName_shape [of "name a"] by blast
  obtain y where y: "\<And>s. validateSymbol (symbol a) s = (s\<lparr>symbolError := y\<rparr>, y = [])"
    using validateSymbol_shape [of "symbol a"] by blast
  obtain d where d: "\<And>s. validateDecimals (decimals a) s = (s\<lparr>decimalsError := d\<rparr>, d = [])"
    using validateDecimals_shape [of "decimals a"] by blast
  obtain u where u: "\<And>s. validateSupply (supply a) s = (s\<lparr>supplyError := u\<rparr>, u = [])"
    using validateSupply_shape [of "supply a"] by blast
  show ?thesis
    by (simp add: handleCreate_def n y d u Let_def)
qed

lemma handleMint_calls_iff:
  "snd (handleMint m) = None \<longleftrightarrow> mintUriError (fst (validateUri (mintUri m) m)) \<noteq> ''''"
proof -
  obtain e where e: "\<And>s. validateUri (mintUri m) s = (s\<lparr>mintUriError := e\<rparr>, e = [])"
    using validateUri_shape [of "mintUri m"] by blast
  show ?thesis by (simp add: handleMint_def e)
qed

lemma handleList_calls_iff:
  "snd (handleList m) = None \<longleftrightarrow>
     listTokenIdError (fst (validateTokenId (listTokenId m) ListField m)) \<noteq> '''' \<or>
     listPriceError (fst (validatePrice (listPrice m) m)) \<noteq> ''''"
proof -
  obtain t where t: "\<And>s. validateTokenId (listTokenId m) ListField s =
      (setTokenIdError ListField t s, t = [])"
    using validateTokenId_shape [of "listTokenId m" ListField] by blast
  obtain p where p: "\<And>s. validatePrice (listPrice m) s = (s\<lparr>listPriceError := p\<rparr>, p = [])"
    using validatePrice_shape [of "listPrice m"] by blast
  show ?thesis by (simp add: handleList_def t p setTokenIdError_def)
qed

lemma handleBuy_calls_iff:
  "snd (handleBuy m) = None \<longleftrightarrow>
     buyTokenIdError (fst (validateTokenId (buyTokenId m) BuyField m)) \<noteq> ''''"
proof -
  obtain t where t: "\<And>s. validateTokenId (buyTokenId m) BuyField s =
      (setTokenIdError BuyField t s, t = [])"
    using validateTokenId_shape [of "buyTokenId m" BuyField] by blast
  show ?thesis by (simp add: handleBuy_def t setTokenIdError_def)
qed

lemma handleStake_calls_iff:
  "snd (handleStake k) = None \<longleftrightarrow>
     stakeAmountError (fst (validateStakeAmount (stakeAmount k) k)) \<noteq> ''''"
proof -
  obtain e where e: "\<And>s. validateStakeAmount (stakeAmount k) s =
      (s\<lparr>stakeAmountError := e\<rparr>, e = [])"
    using validateStakeAmount_shape [of "stakeAmount k"] by blast
  show ?thesis by (simp add: handleStake_def e Let_def)
qed

lemma handleUnstake_calls_iff:
  "snd (handleUnstake k) = None \<longleftrightarrow>
     unstakeAmountError (fst (validateUnstakeAmount (unstakeAmount k) k)) \<noteq> ''''"
proof -
  obtain e where e: "\<And>s. validateUnstakeAmount (unstakeAmount k) s =
      (s\<lparr>unstakeAmountError := e\<rparr>, e = [])"
    using validateUnstakeAmount_shape [of "unstakeAmount k"] by blast
  show ?thesis by (simp add: handleUnstake_def e Let_def)
qed

lemma handleRegister_calls_iff:
  "snd (handleRegister s) = None \<longleftrightarrow>
     titleError (fst (validateTitle (title s) s)) \<noteq> '''' \<or>
     priceError (fst (validatePrice_services (price s) s)) \<noteq> ''''"
proof -
  obtain t where t: "\<And>x. validateTitle (title s) x = (x\<lparr>titleError := t\<rparr>, t = [])"
    using validateTitle_shape [of "title s"] by blast
  obtain p where p: "\<And>x. validatePrice_services (price s) x = (x\<lparr>priceError := p\<rparr>, p = [])"
    using validatePrice_services_shape [of "price s"] by blast
  show ?thesis by (simp add: handleRegister_def t p Let_def)
qed

lemma handlePay_calls_iff:
  "snd (handlePay s) = None \<longleftrightarrow>
     serviceIdError (fst (validateServiceId (serviceId s) s)) \<noteq> ''''"
proof -
  obtain e where e: "\<And>x. validateServiceId (serviceId s) x = (x\<lparr>serviceIdError := e\<rparr>, e = [])"
    using validateServiceId_shape [of "serviceId s"] by blast
  show ?thesis by (simp add: handlePay_def e Let_def)
qed

lemma validateAll_rejects_iff:
  "\<not> snd (validateAll vds st) \<longleftrightarrow> (\<exists>e\<in>set vds. \<not> valid (snd e (values st (fst e))))"
  by (simp add: validateAll_valid)

lemma handleCreate_verdict_iff:
  "snd (handleCreate a) = None \<longleftrightarrow>
     \<not> (snd (validateName (name a) a) \<and> snd (validateSymbol (symbol a) a) \<and>
        snd (validateDecimals (decimals a) a) \<and> snd (validateSupply (supply a) a))"
proof -
  obtain n where n: "\<And>s. validateName (name a) s = (s\<lparr>nameError := n\<rparr>, n = [])"
    using validateName_shape [of "name a"] by blast
  obtain y where y: "\<And>s. validateSymbol (symbol a) s = (s\<lparr>symbolError := y\<rparr>, y = [])"
    using validateSymbol_shape [of "symbol a"] by blast
  obtain d where d: "\<And>s. validateDecimals (decimals a) s = (s\<lparr>decimalsError := d\<rparr>, d = [])"
    using validateDecimals_shape [of "decimals a"] by blast
  obtain u where u: "\<And>s. validateSupply (supply a) s = (s\<lparr>supplyError := u\<rparr>, u = [])"
    using validateSupply_shape [of "supply a"] by blast
  show ?thesis
    by (simp add: handleCreate_def n y d u Let_def)
qed

lemma handleList_verdict_iff:
  "snd (handleList m) = None \<longleftrightarrow>
     \<not> (snd (validateTokenId (listTokenId m) ListField m) \<and>
        snd (validatePrice (listPrice m) m))"
proof -
  obtain t where t: "\<And>s. validateTokenId (listTokenId m) ListField s =
      (setTokenIdError ListField t s, t = [])"
    using validateTokenId_shape [of "listTokenId m" ListField] by blast
  obtain p where p: "\<And>s. validatePrice (listPrice m) s = (s\<lparr>listPriceError := p\<rparr>, p = [])"
    using validatePrice_shape [of "listPrice m"] by blast
  show ?thesis by (simp add: handleList_def t p)
qed

lemma handleRegister_verdict_iff:
  "snd (handleRegister s) = None \<longleftrightarrow>
     \<not> (snd (validateTitle (title s) s) \<and> snd (validatePrice_services (price s) s))"
proof -
  obtain t where t: "\<And>x. validateTitle (title s) x = (x\<lparr>titleError := t\<rparr>, t = [])"
    using validateTitle_shape [of "title s"] by blast
  obtain p where p: "\<And>x. validatePrice_services (price s) x = (x\<lparr>priceError := p\<rparr>, p = [])"
    using validatePrice_services_shape [of "price s"] by blast
  show ?thesis by (simp add: handleRegister_def t p Let_def)
qed

lemma handleMint_verdict_iff:
  "snd (handleMint m) = None \<longleftrightarrow> \<not> snd (validateUri (mintUri m) m)"
  by (simp add: handleMint_def split_def Let_def)

lemma handleBuy_verdict_iff:
  "snd (handleBuy m) = None \<longleftrightarrow> \<not> snd (validateTokenId (buyTokenId m) BuyField m)"
  by (simp add: handleBuy_def split_def Let_def)

lemma handleStake_verdict_iff:
  "snd (handleStake k) = None \<longleftrightarrow> \<not> snd (validateStakeAmount (stakeAmount k) k)"
  by (simp add: handleStake_def split_def Let_def)

lemma handleUnstake_verdict_iff:
  "snd (handleUnstake k) = None \<longleftrightarrow> \<not> snd (validateUnstakeAmount (unstakeAmount k) k)"
  by (simp add: handleUnstake_def split_def Let_def)

lemma handlePay_verdict_iff:
  "snd (handlePay s) = None \<longleftrightarrow> \<not> snd (validateServiceId (serviceId s) s)"
  by (simp add: handlePay_def split_def Let_def)

subsection \<open>The claims\<close>

text \<open>
  C1.  For each handler that sets an in-flight flag (create, stake, unstake, register,
  pay), the flag is false once the external action's promise has settled, whether it
  resolved or rejected, and whatever the state was at that moment: the \<open>finally\<close>
  block clears it on both paths.
\<close>

theorem in_flight_flag_cleared_on_settlement:
  "\<not> isLoading (state_of (handleCreate_settled r a)) \<and>
   \<not> isStaking (state_of (handleStake_settled r b)) \<and>
   \<not> isUnstaking (state_of (handleUnstake_settled r b)) \<and>
   \<not> isRegistering (state_of (handleRegister_settled r c)) \<and>
   \<not> isPaying (state_of (handlePay_settled r c))"
  by (cases r)
     (simp_all add: handleCreate_settled_def handleStake_settled_def handleUnstake_settled_def
        handleRegister_settled_def handlePay_settled_def settle_eval)

lemma error_disables_trigger:
  "nameError a \<noteq> '''' \<or> symbolError a \<noteq> '''' \<or> decimalsError a \<noteq> '''' \<or> supplyError a \<noteq> ''''
     \<Longrightarrow> snd (click create_disabled handleCreate a) = None"
  "mintUriError m \<noteq> '''' \<Longrightarrow> snd (click mint_disabled handleMint m) = None"
  "stakeAmountError k \<noteq> '''' \<Longrightarrow> snd (click stake_disabled handleStake k) = None"
  "unstakeAmountError k \<noteq> '''' \<Longrightarrow> snd (click unstake_disabled handleUnstake k) = None"
  "titleError s \<noteq> '''' \<or> priceError s \<noteq> '''' \<Longrightarrow>
     snd (click register_disabled handleRegister s) = None"
  "serviceIdError s \<noteq> '''' \<Longrightarrow> snd (click pay_disabled handlePay s) = None"
  by (auto simp add: click_def create_disabled_def mint_disabled_def stake_disabled_def
        unstake_disabled_def register_disabled_def pay_disabled_def)

text \<open>
  C2.  For every form, when some field has a non-empty validation error at the moment
  submit is invoked, that is, when the field's validator yields a non-empty error on
  the field's current value, the submit handler makes no call to the external action;
  and only then: when every validator accepts, the call is made.  For the hook,
  \<open>validateAll\<close> returns false exactly when some validator rejects its field's value.
  The same is stated once more with the validators' verdicts (their return values) in
  place of their messages.
\<close>

theorem submit_gated_by_validation:
  "(snd (handleCreate a) = None \<longleftrightarrow>
      nameError (fst (validateName (name a) a)) \<noteq> '''' \<or>
      symbolError (fst (validateSymbol (symbol a) a)) \<noteq> '''' \<or>
      decimalsError (fst (validateDecimals (decimals a) a)) \<noteq> '''' \<or>
      supplyError (fst (validateSupply (supply a) a)) \<noteq> '''') \<and>
   (snd (handleMint m) = None \<longleftrightarrow> mintUriError (fst (validateUri (mintUri m) m)) \<noteq> '''') \<and>
   (snd (handleList m) = None \<longleftrightarrow>
      listTokenIdError (fst (validateTokenId (listTokenId m) ListField m)) \<noteq> '''' \<or>
      listPriceError (fst (validatePrice (listPrice m) m)) \<noteq> '''') \<and>
   (snd (handleBuy m) = None \<longleftrightarrow>
      buyTokenIdError (fst (validateTokenId (buyTokenId m) BuyField m)) \<noteq> '''') \<and>
   (snd (handleStake k) = None \<longleftrightarrow>
      stakeAmountError (fst (validateStakeAmount (stakeAmount k) k)) \<noteq> '''') \<and>
   (snd (handleUnstake k) = None \<longleftrightarrow>
      unstakeAmountError (fst (validateUnstakeAmount (unstakeAmount k) k)) \<noteq> '''') \<and>
   (snd (handleRegister s) = None \<longleftrightarrow>
      titleError (fst (validateTitle (title s) s)) \<noteq> '''' \<or>
      priceError (fst (validatePrice_services (price s) s)) \<noteq> '''') \<and>
   (snd (handlePay s) = None \<longleftrightarrow>
      serviceIdError (fst (validateServiceId (serviceId s) s)) \<noteq> '''') \<and>
   (\<not> snd (validateAll vds st) \<longleftrightarrow> (\<exists>e\<in>set vds. \<not> valid (snd e (values st (fst e))))) \<and>
   (snd (handleCreate a) = None \<longleftrightarrow>
      \<not> (snd (validateName (name a) a) \<and> snd (validateSymbol (symbol a) a) \<and>
         snd (validateDecimals (decimals a) a) \<and> snd (validateSupply (supply a) a))) \<and>
   (snd (handleMint m) = None \<longleftrightarrow> \<not> snd (validateUri (mintUri m) m)) \<and>
   (snd (handleList m) = None \<longleftrightarrow>
      \<not> (snd (validateTokenId (listTokenId m) ListField m) \<and>
         snd (validatePrice (listPrice m) m))) \<and>
   (snd (handleBuy m) = None \<longleftrightarrow> \<not> snd (validateTokenId (buyTokenId m) BuyField m)) \<and>
   (snd (handleStake k) = None \<longleftrightarrow> \<not> snd (validateStakeAmount (stakeAmount k) k)) \<and>
   (snd (handleUnstake k) = None \<longleftrightarrow>
      \<not> snd (validateUnstakeAmount (unstakeAmount k) k)) \<and>
   (snd (handleRegister s) = None \<longleftrightarrow>
      \<not> (snd (validateTitle (title s) s) \<and> snd (validatePrice_services (price s) s))) \<and>
   (snd (handlePay s) = None \<longleftrightarrow> \<not> snd (validateServiceId (serviceId s) s))"
  by (intro conjI handleCreate_calls_iff handleMint_calls_iff handleList_calls_iff
        handleBuy_calls_iff handleStake_calls_iff handleUnstake_calls_iff
        handleRegister_calls_iff handlePay_calls_iff validateAll_rejects_iff
        handleCreate_verdict_iff handleMint_verdict_iff handleList_verdict_iff
        handleBuy_verdict_iff handleStake_verdict_iff handleUnstake_verdict_iff
        handleRegister_verdict_iff handlePay_verdict_iff)

theorem submit_gated_by_validation_witness:
  "supplyError (fst (validateSupply (supply zero_supply_token) zero_supply_token)) =
     ''Supply must be a positive integer'' \<and>
   snd (handleCreate zero_supply_token) = None \<and>
   snd (handleCreate token_scenario) \<noteq> None \<and>
   mintUriError (fst (validateUri (mintUri ftp_mint) ftp_mint)) =
     ''URI must start with ipfs://, http://, or https://'' \<and>
   snd (handleMint ftp_mint) = None \<and>
   listPriceError (fst (validatePrice (listPrice cheap_listing) cheap_listing)) =
     ''Minimum price is 0.001 STX'' \<and>
   snd (handleList cheap_listing) = None \<and>
   snd (handleList whole_price_listing) \<noteq> None \<and>
   buyTokenIdError (fst (validateTokenId (buyTokenId negative_buy) BuyField negative_buy)) =
     ''Token ID must be a non-negative integer'' \<and>
   snd (handleBuy negative_buy) = None \<and>
   snd (handleBuy positive_buy) \<noteq> None \<and>
   stakeAmountError (fst (validateStakeAmount (stakeAmount half_stake) half_stake)) =
     ''Minimum stake is 1 STX'' \<and>
   snd (handleStake half_stake) = None \<and>
   unstakeAmountError (fst (validateUnstakeAmount (unstakeAmount half_stake) half_stake)) =
     ''Minimum unstake is 1 STX'' \<and>
   snd (handleUnstake half_stake) = None \<and>
   priceError (fst (validatePrice_services (price cheap_service) cheap_service)) =
     ''Minimum price is 0.1 STX'' \<and>
   snd (handleRegister cheap_service) = None \<and>
   serviceIdError (fst (validateServiceId (serviceId cheap_service) cheap_service)) =
     ''Service ID must be a non-negative integer'' \<and>
   snd (handlePay cheap_service) = None \<and>
   \<not> valid (required_field (values two_field_form ''price'')) \<and>
   \<not> snd (validateAll two_field_validators two_field_form)"
proof -
  have e1: "supplyError (fst (validateSupply (supply zero_supply_token) zero_supply_token)) =
      ''Supply must be a positive integer''"
    by (simp add: zero_supply_token_def token_scenario_def launchpad_init_def
          validateSupply_def js_eval)
  have ok1: "nameError (fst (validateName (name token_scenario) token_scenario)) = ''''"
    "symbolError (fst (validateSymbol (symbol token_scenario) token_scenario)) = ''''"
    "decimalsError (fst (validateDecimals (decimals token_scenario) token_scenario)) = ''''"
    "supplyError (fst (validateSupply (supply token_scenario) token_scenario)) = ''''"
    by (simp_all add: token_scenario_def launchpad_init_def validateName_def
          validateSymbol_def validateDecimals_def validateSupply_def js_eval)
  have e2: "mintUriError (fst (validateUri (mintUri ftp_mint) ftp_mint)) =
      ''URI must start with ipfs://, http://, or https://''"
    by (simp add: ftp_mint_def marketplace_init_def validateUri_def js_eval)
  have e3: "listPriceError (fst (validatePrice (listPrice cheap_listing) cheap_listing)) =
      ''Minimum price is 0.001 STX''"
    by (simp add: cheap_listing_def marketplace_init_def validatePrice_def js_eval)
  have ok3:
    "listTokenIdError (fst (validateTokenId (listTokenId whole_price_listing) ListField
        whole_price_listing)) = ''''"
    "listPriceError (fst (validatePrice (listPrice whole_price_listing) whole_price_listing)) =
       ''''"
    by (simp_all add: whole_price_listing_def marketplace_init_def validateTokenId_def
          setTokenIdError_def validatePrice_def js_eval)
  have e4: "buyTokenIdError (fst (validateTokenId (buyTokenId negative_buy) BuyField
      negative_buy)) = ''Token ID must be a non-negative integer''"
    by (simp add: negative_buy_def marketplace_init_def validateTokenId_def
          setTokenIdError_def js_eval)
  have ok4: "buyTokenIdError (fst (validateTokenId (buyTokenId positive_buy) BuyField
      positive_buy)) = ''''"
    by (simp add: positive_buy_def marketplace_init_def validateTokenId_def
          setTokenIdError_def js_eval)
  have e5: "stakeAmountError (fst (validateStakeAmount (stakeAmount half_stake) half_stake)) =
      ''Minimum stake is 1 STX''"
    and e6: "unstakeAmountError (fst (validateUnstakeAmount (unstakeAmount half_stake)
      half_stake)) = ''Minimum unstake is 1 STX''"
    by (simp_all add: half_stake_def staking_init_def validateStakeAmount_def
          validateUnstakeAmount_def js_eval)
  have e7: "priceError (fst (validatePrice_services (price cheap_service) cheap_service)) =
      ''Minimum price is 0.1 STX''"
    and e8: "serviceIdError (fst (validateServiceId (serviceId cheap_service) cheap_service)) =
      ''Service ID must be a non-negative integer''"
    by (simp_all add: cheap_service_def services_init_def validatePrice_services_def
          validateServiceId_def js_eval)
  have e9: "\<not> valid (required_field (values two_field_form ''price''))"
    by (simp add: two_field_form_def setValue_def useFormValidation_def required_field_def
          js_eval)
  have entry: "\<exists>e\<in>set two_field_validators. \<not> valid (snd e (values two_field_form (fst e)))"
    using e9 by (simp add: two_field_validators_def)
  note conj = submit_gated_by_validation
  note c_create = conj [THEN conjunct1]
  note c_mint = conj [THEN conjunct2, THEN conjunct1]
  note c_list = conj [THEN conjunct2, THEN conjunct2, THEN conjunct1]
  note c_buy = conj [THEN conjunct2, THEN conjunct2, THEN conjunct2, THEN conjunct1]
  note c_stake = conj [THEN conjunct2, THEN conjunct2, THEN conjunct2, THEN conjunct2,
    THEN conjunct1]
  note c_unstake = conj [THEN conjunct2, THEN conjunct2, THEN conjunct2, THEN conjunct2,
    THEN conjunct2, THEN conjunct1]
  note c_register = conj [THEN conjunct2, THEN conjunct2, THEN conjunct2, THEN conjunct2,
    THEN conjunct2, THEN conjunct2, THEN conjunct1]
  note c_pay = conj [THEN conjunct2, THEN conjunct2, THEN conjunct2, THEN conjunct2,
    THEN conjunct2, THEN conjunct2, THEN conjunct2, THEN conjunct1]
  note c_hook = conj [THEN conjunct2, THEN conjunct2, THEN conjunct2, THEN conjunct2,
    THEN conjunct2, THEN conjunct2, THEN conjunct2, THEN conjunct2, THEN conjunct1]
  have t1: "snd (handleCreate zero_supply_token) = None"
    using c_create [of zero_supply_token] e1 by simp
  have t2: "snd (handleCreate token_scenario) \<noteq> None"
    using c_create [of token_scenario] ok1 by simp
  have t3: "snd (handleMint ftp_mint) = None"
    using c_mint [of ftp_mint] e2 by simp
  have t4: "snd (handleList cheap_listing) = None"
    using c_list [of cheap_listing] e3 by simp
  have t5: "snd (handleList whole_price_listing) \<noteq> None"
    using c_list [of whole_price_listing] ok3 by simp
  have t6: "snd (handleBuy negative_buy) = None"
    using c_buy [of negative_buy] e4 by simp
  have t7: "snd (handleBuy positive_buy) \<noteq> None"
    using c_buy [of positive_buy] ok4 by simp
  have t8: "snd (handleStake half_stake) = None"
    using c_stake [of half_stake] e5 by simp
  have t8b: "snd (handleUnstake half_stake) = None"
    using c_unstake [of half_stake] e6 by simp
  have t9: "snd (handleRegister cheap_service) = None"
    using c_register [of cheap_service] e7 by simp
  have t9b: "snd (handlePay cheap_service) = None"
    using c_pay [of cheap_service] e8 by simp
  have t10: "\<not> snd (validateAll two_field_validators two_field_form)"
    using c_hook [of two_field_validators two_field_form] entry by simp
  from e1 e2 e3 e4 e5 e6 e7 e8 e9 t1 t2 t3 t4 t5 t6 t7 t8 t8b t9 t9b t10 show ?thesis
    by (intro conjI)
qed

text \<open>
  C5.  With name "My Token", symbol "MTK", decimals "6" and supply "1000000" every
  validator of the token-creation form accepts, and submitting issues the external
  create action with exactly the name "My Token", the symbol "MTK", decimals 6 and a
  total supply of 1000000 times 10 to the power 6.
\<close>

theorem token_creation_scenario:
  "snd (validateName (name token_scenario) token_scenario) \<and>
   snd (validateSymbol (symbol token_scenario) token_scenario) \<and>
   snd (validateDecimals (decimals token_scenario) token_scenario) \<and>
   snd (validateSupply (supply token_scenario) token_scenario) \<and>
   snd (click create_disabled handleCreate token_scenario) =
     Some (CreateToken (js ''My Token'') (js ''MTK'') (Num 6) (Num (1000000 * 10 ^ 6)))"
  by (simp add: token_scenario_def launchpad_init_def click_def create_disabled_def
        handleCreate_def validateName_def validateSymbol_def validateDecimals_def
        validateSupply_def js_eval)

theorem token_creation_scenario_enabled:
  "\<not> create_disabled token_scenario \<and>
   snd (handleCreate token_scenario) =
     Some (CreateToken (js ''My Token'') (js ''MTK'') (Num 6) (Num (1000000 * 10 ^ 6)))"
  using token_creation_scenario
  by (simp add: click_def create_disabled_def token_scenario_def launchpad_init_def js_def)

text \<open>
  C10.  The token-name validator applies the required rule to the trimmed value and the
  2-32 length bound and the alphanumeric-plus-space pattern to the raw value: a value
  that is empty after trimming gets the required message; any other value whose raw
  length is outside 2..32 gets the length message; any other value with a code unit
  outside the pattern gets the pattern message; every remaining value is accepted.
  So the input "a " (a letter and a space), of trimmed length 1 and raw length 2, is
  accepted.
\<close>

theorem validateName_required_trimmed_bounds_raw:
  "(trim v = [] \<longrightarrow>
      validateName v st = (st\<lparr>nameError := ''Token name is required''\<rparr>, False)) \<and>
   (trim v \<noteq> [] \<and> (length v < 2 \<or> 32 < length v) \<longrightarrow>
      validateName v st = (st\<lparr>nameError := ''Token name must be 2-32 characters''\<rparr>, False)) \<and>
   (trim v \<noteq> [] \<and> 2 \<le> length v \<and> length v \<le> 32 \<and>
    (\<exists>c\<in>set v. \<not> (isLower c \<or> isUpper c \<or> isDigit c \<or> isWhiteSpace c)) \<longrightarrow>
      validateName v st = (st\<lparr>nameError := ''Token name must be alphanumeric''\<rparr>, False)) \<and>
   (trim v \<noteq> [] \<and> 2 \<le> length v \<and> length v \<le> 32 \<and>
    (\<forall>c\<in>set v. isLower c \<or> isUpper c \<or> isDigit c \<or> isWhiteSpace c) \<longrightarrow>
      validateName v st = (st\<lparr>nameError := ''''\<rparr>, True)) \<and>
   length (trim (js ''a '')) = 1 \<and> length (js ''a '') = 2 \<and>
   validateName (js ''a '') st = (st\<lparr>nameError := ''''\<rparr>, True)"
proof -
  have required: "trim v = [] \<longrightarrow>
      validateName v st = (st\<lparr>nameError := ''Token name is required''\<rparr>, False)"
    by (simp add: validateName_def)
  have bounds: "trim v \<noteq> [] \<and> (length v < 2 \<or> 32 < length v) \<longrightarrow>
      validateName v st = (st\<lparr>nameError := ''Token name must be 2-32 characters''\<rparr>, False)"
    by (simp add: validateName_def)
  have pattern: "trim v \<noteq> [] \<and> 2 \<le> length v \<and> length v \<le> 32 \<and>
    (\<exists>c\<in>set v. \<not> (isLower c \<or> isUpper c \<or> isDigit c \<or> isWhiteSpace c)) \<longrightarrow>
      validateName v st = (st\<lparr>nameError := ''Token name must be alphanumeric''\<rparr>, False)"
    by (auto simp add: validateName_def testClassPlus_def list_all_iff)
  have accepted: "trim v \<noteq> [] \<and> 2 \<le> length v \<and> length v \<le> 32 \<and>
    (\<forall>c\<in>set v. isLower c \<or> isUpper c \<or> isDigit c \<or> isWhiteSpace c) \<longrightarrow>
      validateName v st = (st\<lparr>nameError := ''''\<rparr>, True)"
    by (auto simp add: validateName_def testClassPlus_def list_all_iff trim_Nil)
  have at_a_space: "length (trim (js ''a '')) = 1" "length (js ''a '') = 2"
    "validateName (js ''a '') st = (st\<lparr>nameError := ''''\<rparr>, True)"
    by (simp_all add: validateName_def js_eval)
  show ?thesis
    by (intro conjI required bounds pattern accepted at_a_space)
qed

theorem validateName_required_trimmed_bounds_raw_witness:
  "trim (js ''  '') = [] \<and>
   validateName (js ''  '') launchpad_init =
     (launchpad_init\<lparr>nameError := ''Token name is required''\<rparr>, False) \<and>
   length (trim long_padded_name) = 32 \<and> length long_padded_name = 33 \<and>
   validateName long_padded_name launchpad_init =
     (launchpad_init\<lparr>nameError := ''Token name must be 2-32 characters''\<rparr>, False) \<and>
   validateName (js ''a'') launchpad_init =
     (launchpad_init\<lparr>nameError := ''Token name must be 2-32 characters''\<rparr>, False) \<and>
   validateName (js ''a!'') launchpad_init =
     (launchpad_init\<lparr>nameError := ''Token name must be alphanumeric''\<rparr>, False) \<and>
   validateName (js ''My Token'') launchpad_init = (launchpad_init\<lparr>nameError := ''''\<rparr>, True)"
proof -
  note general = validateName_required_trimmed_bounds_raw
  have h1: "trim (js ''  '') = []"
    by (simp add: js_eval)
  have h2: "length (trim long_padded_name) = 32" "length long_padded_name = 33"
    by (simp_all add: long_padded_name_def js_eval)
  then have h2': "trim long_padded_name \<noteq> [] \<and>
      (length long_padded_name < 2 \<or> 32 < length long_padded_name)"
    by auto
  have h3: "trim (js ''a'') \<noteq> [] \<and> (length (js ''a'') < 2 \<or> 32 < length (js ''a''))"
    by (simp add: js_eval)
  have h4: "trim (js ''a!'') \<noteq> [] \<and> 2 \<le> length (js ''a!'') \<and> length (js ''a!'') \<le> 32 \<and>
      (\<exists>c\<in>set (js ''a!''). \<not> (isLower c \<or> isUpper c \<or> isDigit c \<or> isWhiteSpace c))"
    by (simp add: js_eval)
  have h5: "trim (js ''My Token'') \<noteq> [] \<and> 2 \<le> length (js ''My Token'') \<and>
      length (js ''My Token'') \<le> 32 \<and>
      (\<forall>c\<in>set (js ''My Token''). isLower c \<or> isUpper c \<or> isDigit c \<or> isWhiteSpace c)"
    by (simp add: js_eval)
  have t1: "validateName (js ''  '') launchpad_init =
      (launchpad_init\<lparr>nameError := ''Token name is required''\<rparr>, False)"
    using general [THEN conjunct1, of "js ''  ''" launchpad_init] h1 by (rule mp)
  have t2: "validateName long_padded_name launchpad_init =
      (launchpad_init\<lparr>nameError := ''Token name must be 2-32 characters''\<rparr>, False)"
    using general [THEN conjunct2, THEN conjunct1, of long_padded_name launchpad_init] h2'
    by (rule mp)
  have t3: "validateName (js ''a'') launchpad_init =
      (launchpad_init\<lparr>nameError := ''Token name must be 2-32 characters''\<rparr>, False)"
    using general [THEN conjunct2, THEN conjunct1, of "js ''a''" launchpad_init] h3
    by (rule mp)
  have t4: "validateName (js ''a!'') launchpad_init =
      (launchpad_init\<lparr>nameError := ''Token name must be alphanumeric''\<rparr>, False)"
    using general [THEN conjunct2, THEN conjunct2, THEN conjunct1, of "js ''a!''" launchpad_init] h4
    by (rule mp)
  have t5: "validateName (js ''My Token'') launchpad_init =
      (launchpad_init\<lparr>nameError := ''''\<rparr>, True)"
    using general [THEN conjunct2, THEN conjunct2, THEN conjunct2, THEN conjunct1,
      of "js ''My Token''" launchpad_init] h5
    by (rule mp)
  from h1 h2 t1 t2 t3 t4 t5 show ?thesis
    by (intro conjI)
qed

text \<open>
  C3.  At most one submission per action is in flight: while the external action is
  pending the trigger is disabled, so a second submit does not call it again.  The
  handlers with an in-flight flag keep to this (\<open>in_flight_disables_trigger\<close>).  The
  marketplace's list action has no flag and its button has no \<open>disabled\<close> attribute:
  evaluated on token ID "1" and price "2", a second submit while the first call is
  still pending issues the call a second time.
\<close>

theorem list_submitted_again_while_pending:
  "snd (click list_disabled handleList whole_price_listing) =
     Some (ListNFT (Num 1) (Num 2000000)) \<and>
   snd (click list_disabled handleList (fst (click list_disabled handleList whole_price_listing))) =
     Some (ListNFT (Num 1) (Num 2000000))"
  by (simp add: whole_price_listing_def page_eval js_eval)

lemma in_flight_disables_trigger:
  "snd (handleCreate a) \<noteq> None \<Longrightarrow> create_disabled (fst (handleCreate a))"
  "snd (handleStake k) \<noteq> None \<Longrightarrow> stake_disabled (fst (handleStake k))"
  "snd (handleUnstake k) \<noteq> None \<Longrightarrow> unstake_disabled (fst (handleUnstake k))"
  "snd (handleRegister s) \<noteq> None \<Longrightarrow> register_disabled (fst (handleRegister s))"
  "snd (handlePay s) \<noteq> None \<Longrightarrow> pay_disabled (fst (handlePay s))"
  by (simp_all add: handleCreate_def handleStake_def handleUnstake_def handleRegister_def
        handlePay_def create_disabled_def stake_disabled_def unstake_disabled_def
        register_disabled_def pay_disabled_def split_def Let_def split: if_splits)

text \<open>
  C4.  An accepted listing price reaches the external list action multiplied by
  1,000,000.  Evaluated on the price "1.5", which the price validator accepts:
  \<open>handleList\<close> converts with \<open>parseInt\<close>, so the action receives 1,000,000, where the
  validator's own reading of the price (\<open>parseFloat\<close>) times 1,000,000 is 1,500,000.
\<close>

theorem list_price_truncated_to_integer:
  "snd (validatePrice (listPrice fractional_price_listing) fractional_price_listing) \<and>
   snd (click list_disabled handleList fractional_price_listing) =
     Some (ListNFT (Num 1) (Num 1000000)) \<and>
   num_mult (parseFloat (listPrice fractional_price_listing)) (Num 1000000) = Num 1500000"
  by (simp add: fractional_price_listing_def page_eval js_eval)

text \<open>
  C6, as stated, fails for the decimals validator: it has no required check, and the
  empty string gets its range message.
\<close>

theorem empty_decimals_range_error:
  "trim [] = [] \<and>
   validateDecimals [] launchpad_init =
     (launchpad_init\<lparr>decimalsError := ''Decimals must be between 0 and 18''\<rparr>, False)"
  by (simp add: validateDecimals_def js_eval)

text \<open>
  C6, amended.  For every field validator other than the decimals validator, an input
  that is empty after trimming is rejected with the field's "required" message, whatever
  else is wrong with it; the decimals validator, which has no required check, rejects
  such an input with its one message "Decimals must be between 0 and 18".
\<close>

theorem blank_input_required_error:
  "trim v = [] \<Longrightarrow>
   validateName v a = (a\<lparr>nameError := ''Token name is required''\<rparr>, False) \<and>
   validateSymbol v a = (a\<lparr>symbolError := ''Symbol is required''\<rparr>, False) \<and>
   validateSupply v a = (a\<lparr>supplyError := ''Supply is required''\<rparr>, False) \<and>
   validateUri v m = (m\<lparr>mintUriError := ''URI is required''\<rparr>, False) \<and>
   validateTokenId v ListField m = (m\<lparr>listTokenIdError := ''Token ID is required''\<rparr>, False) \<and>
   validateTokenId v BuyField m = (m\<lparr>buyTokenIdError := ''Token ID is required''\<rparr>, False) \<and>
   validatePrice v m = (m\<lparr>listPriceError := ''Price is required''\<rparr>, False) \<and>
   validateStakeAmount v k = (k\<lparr>stakeAmountError := ''Amount is required''\<rparr>, False) \<and>
   validateUnstakeAmount v k = (k\<lparr>unstakeAmountError := ''Amount is required''\<rparr>, False) \<and>
   validateTitle v s = (s\<lparr>titleError := ''Service title is required''\<rparr>, False) \<and>
   validatePrice_services v s = (s\<lparr>priceError := ''Price is required''\<rparr>, False) \<and>
   validateServiceId v s = (s\<lparr>serviceIdError := ''Service ID is required''\<rparr>, False) \<and>
   validateDecimals v a = (a\<lparr>decimalsError := ''Decimals must be between 0 and 18''\<rparr>, False)"
  by (simp add: validateName_def validateSymbol_def validateSupply_def validateUri_def
        validateTokenId_def setTokenIdError_def validatePrice_def validateStakeAmount_def
        validateUnstakeAmount_def validateTitle_def validatePrice_services_def
        validateServiceId_def validateDecimals_def parseInt_blank isNaN_def)

theorem blank_input_required_error_witness:
  "trim (js ''  '') = [] \<and>
   validateName (js ''  '') launchpad_init =
     (launchpad_init\<lparr>nameError := ''Token name is required''\<rparr>, False) \<and>
   validatePrice (js ''  '') marketplace_init =
     (marketplace_init\<lparr>listPriceError := ''Price is required''\<rparr>, False) \<and>
   validateStakeAmount (js ''  '') staking_init =
     (staking_init\<lparr>stakeAmountError := ''Amount is required''\<rparr>, False) \<and>
   validateServiceId (js ''  '') services_init =
     (services_init\<lparr>serviceIdError := ''Service ID is required''\<rparr>, False) \<and>
   validateDecimals (js ''  '') launchpad_init =
     (launchpad_init\<lparr>decimalsError := ''Decimals must be between 0 and 18''\<rparr>, False)"
proof -
  have blank: "trim (js ''  '') = []"
    by (simp add: js_eval)
  from blank_input_required_error
    [OF blank, of launchpad_init marketplace_init staking_init services_init] blank
  show ?thesis by simp
qed

text \<open>
  C7, as stated, fails in its last part: "abc" does not parse, "19" parses and is out
  of range, and both get the same message.
\<close>

theorem decimals_nonnumeric_and_range_share_message:
  "isNaN (parseInt (js ''abc'') (Some 10)) \<and> parseInt (js ''19'') (Some 10) = Num 19 \<and>
   decimalsError (fst (validateDecimals (js ''abc'') launchpad_init)) =
     decimalsError (fst (validateDecimals (js ''19'') launchpad_init))"
  by (simp add: validateDecimals_def launchpad_init_def js_eval)

text \<open>
  C7, amended.  For the decimals validator "0" and "18" pass and "-1" and "19" fail;
  an input that does not parse as a number and an input that parses to a value outside
  [0, 18] fail with the same message, "Decimals must be between 0 and 18".
\<close>

theorem validateDecimals_bounds_one_message:
  "validateDecimals (js ''0'') a = (a\<lparr>decimalsError := ''''\<rparr>, True) \<and>
   validateDecimals (js ''18'') a = (a\<lparr>decimalsError := ''''\<rparr>, True) \<and>
   validateDecimals (js ''-1'') a =
     (a\<lparr>decimalsError := ''Decimals must be between 0 and 18''\<rparr>, False) \<and>
   validateDecimals (js ''19'') a =
     (a\<lparr>decimalsError := ''Decimals must be between 0 and 18''\<rparr>, False) \<and>
   (\<forall>v. isNaN (parseInt v (Some 10)) \<longrightarrow>
      validateDecimals v a = (a\<lparr>decimalsError := ''Decimals must be between 0 and 18''\<rparr>, False)) \<and>
   (\<forall>v n. parseInt v (Some 10) = Num n \<and> (n < 0 \<or> 18 < n) \<longrightarrow>
      validateDecimals v a = (a\<lparr>decimalsError := ''Decimals must be between 0 and 18''\<rparr>, False))"
proof -
  have concrete:
    "parseInt (js ''0'') (Some 10) = Num 0" "parseInt (js ''18'') (Some 10) = Num 18"
    "parseInt (js ''-1'') (Some 10) = Num (- 1)" "parseInt (js ''19'') (Some 10) = Num 19"
    by (simp_all add: js_eval)
  show ?thesis
    by (auto simp add: validateDecimals_def concrete isNaN_def num_gt_def Let_def)
qed

theorem validateDecimals_bounds_one_message_witness:
  "isNaN (parseInt (js ''abc'') (Some 10)) \<and>
   validateDecimals (js ''abc'') launchpad_init =
     (launchpad_init\<lparr>decimalsError := ''Decimals must be between 0 and 18''\<rparr>, False) \<and>
   parseInt (js ''42'') (Some 10) = Num 42 \<and>
   validateDecimals (js ''42'') launchpad_init =
     (launchpad_init\<lparr>decimalsError := ''Decimals must be between 0 and 18''\<rparr>, False)"
proof -
  have a: "isNaN (parseInt (js ''abc'') (Some 10))"
    and b: "parseInt (js ''42'') (Some 10) = Num 42"
    by (simp_all add: js_eval)
  from validateDecimals_bounds_one_message [of launchpad_init] a b
  show ?thesis by simp
qed

text \<open>
  C8, as stated, fails: submitting the listing form with token ID "-1" and price
  "0.0005" sets the token-ID message and leaves the price message empty.  (0.0005 is
  not a binary64 value; the double nearest to it is below 0.001 all the same.)
\<close>

theorem listing_scenario_price_error_unset:
  "listTokenIdError (fst (click list_disabled handleList listing_scenario)) =
     ''Token ID must be a non-negative integer'' \<and>
   listPriceError (fst (click list_disabled handleList listing_scenario)) = ''''"
  by (simp add: listing_scenario_def page_eval js_eval)

text \<open>
  C8, amended.  Each validator on its own rejects its value, token ID "-1" with the
  non-negative-integer message and price "0.0005" with the minimum-price message; but
  submitting the listing form with both runs the validators in a short-circuit chain:
  the token-ID message is set, the price validator does not run, the price message is
  left as it was, and no call is made.
\<close>

theorem listing_scenario_short_circuit:
  "validateTokenId (js ''-1'') ListField m =
     (m\<lparr>listTokenIdError := ''Token ID must be a non-negative integer''\<rparr>, False) \<and>
   validatePrice (js ''0.0005'') m = (m\<lparr>listPriceError := ''Minimum price is 0.001 STX''\<rparr>, False) \<and>
   click list_disabled handleList (m\<lparr>listTokenId := js ''-1'', listPrice := js ''0.0005''\<rparr>) =
     (m\<lparr>listTokenId := js ''-1'', listPrice := js ''0.0005'',
        listTokenIdError := ''Token ID must be a non-negative integer''\<rparr>, None)"
  by (simp add: page_eval js_eval)




end
